theory Spec2Isabelle
  imports Complex_Main
begin

section \<open>Numbers, truthiness and errors\<close>

text \<open>
  The calculator works on Python \<open>float\<close> values entered in number fields. They are
  modelled by \<open>real\<close>: the exact, decimal reading the specification gives them
  (\<open>decimal\<close> in its data model), so binary rounding error, infinities and NaN are
  outside the model. Share counts produced by \<open>int(...)\<close> are \<open>int\<close>. A value that
  may be \<open>None\<close> is an \<open>option\<close>. A float division by zero raises
  \<open>ZeroDivisionError\<close>; where the source divides under a guard that excludes zero the
  model divides in that branch only, and where it divides unguarded the model returns
  the error.
\<close>

datatype error = ZeroDivisionError

text \<open>\<open>np.floor(x)\<close>: the largest whole number not above \<open>x\<close>, still a float.\<close>

definition np_floor :: "real \<Rightarrow> real" where
  "np_floor x = of_int \<lfloor>x\<rfloor>"

text \<open>\<open>int(x)\<close> on a float: truncation towards zero.\<close>

definition py_int :: "real \<Rightarrow> int" where
  "py_int x = (if 0 \<le> x then \<lfloor>x\<rfloor> else \<lceil>x\<rceil>)"

text \<open>\<open>a // b\<close> on floats with \<open>b \<noteq> 0\<close>: the floor of the quotient, still a float.\<close>

definition py_floordiv :: "real \<Rightarrow> real \<Rightarrow> real" where
  "py_floordiv a b = of_int \<lfloor>a / b\<rfloor>"

text \<open>
  \<open>round(x, n)\<close>: the nearest multiple of \<open>10^-n\<close>, a tie going to the even
  neighbour.
\<close>

definition round_half_even :: "real \<Rightarrow> int" where
  "round_half_even y =
     (let f = \<lfloor>y\<rfloor>; d = y - of_int f in
      if d < 1 / 2 then f
      else if 1 / 2 < d then f + 1
      else if even f then f else f + 1)"

definition py_round :: "real \<Rightarrow> nat \<Rightarrow> real" where
  "py_round x n = of_int (round_half_even (x * 10 ^ n)) / 10 ^ n"

text \<open>
  Python truthiness of a value that is \<open>None\<close> or a number: \<open>not x\<close> holds for
  \<open>None\<close> and for \<open>0\<close>.
\<close>

definition truthy :: "'a::zero option \<Rightarrow> bool" where
  "truthy x = (case x of None \<Rightarrow> False | Some v \<Rightarrow> v \<noteq> 0)"

section \<open>The helpers of calculator v2.1\<close>


definition safe_shares_from_investment :: "real option \<Rightarrow> real option \<Rightarrow> int option" where
  "safe_shares_from_investment total_investment entry_price =
     (if \<not> truthy total_investment \<or> \<not> truthy entry_price \<or> the entry_price \<le> 0 then None
      else Some (py_int (np_floor (the total_investment / the entry_price))))"

definition safe_shares_by_risk ::
  "real option \<Rightarrow> real option \<Rightarrow> real option \<Rightarrow> int option \<times> real option" where
  "safe_shares_by_risk max_risk entry_price stop_loss =
     (if \<not> truthy max_risk \<or> \<not> truthy entry_price \<or> \<not> truthy stop_loss then (None, None)
      else
        (let risk_per_share = the entry_price - the stop_loss in
         if risk_per_share \<le> 0 then (Some 0, Some risk_per_share)
         else (Some (py_int (np_floor (the max_risk / risk_per_share))), Some risk_per_share)))"

section \<open>The dark-mode calculator\<close>






section \<open>The engine of the integrated calculator (v1.0)\<close>

definition calc_shares_from_investment :: "real \<Rightarrow> real \<Rightarrow> int" where
  "calc_shares_from_investment total_investment current_price =
     (if current_price \<le> 0 then 0
      else py_int (py_floordiv total_investment current_price))"

definition calc_shares_by_risk :: "real \<Rightarrow> real \<Rightarrow> real \<Rightarrow> int \<times> real" where
  "calc_shares_by_risk max_risk entry_price stop_loss =
     (let risk_per_share = entry_price - stop_loss in
      if risk_per_share \<le> 0 then (0, risk_per_share)
      else (py_int (np_floor (max_risk / risk_per_share)), risk_per_share))"

record trade_metrics =
  risk_per_share :: real
  adj_risk_per_share :: real
  profit_per_share :: real
  adj_profit_per_share :: real
  total_risk :: real
  total_profit :: real
  reward_risk_ratio :: "real option"

definition calc_metrics ::
  "real \<Rightarrow> real \<Rightarrow> real \<Rightarrow> int \<Rightarrow> real \<Rightarrow> real \<Rightarrow> trade_metrics" where
  "calc_metrics entry_price stop_loss target_price shares commission slippage =
     (let rps = entry_price - stop_loss;
          pps = target_price - entry_price;
          adj_rps = rps + commission + slippage;
          adj_pps = pps - commission - slippage
      in \<lparr> risk_per_share = rps,
           adj_risk_per_share = adj_rps,
           profit_per_share = pps,
           adj_profit_per_share = adj_pps,
           total_risk = adj_rps * of_int shares,
           total_profit = adj_pps * of_int shares,
           reward_risk_ratio =
             (if adj_rps > 0 then Some (py_round (adj_pps / adj_rps) 3) else None) \<rparr>)"

subsection \<open>Tab 1: sizing from an investment amount\<close>

record tab1_inputs =
  stock_name :: string
  total_investment :: real
  current_price :: real
  commission :: real
  slippage :: real
  stop_loss :: real
  target_price :: real
  max_position_pct :: real

record tab1_state =
  shares :: int
  required_investment :: real
  metrics :: trade_metrics

text \<open>The calculations that open the tab: shares, required investment, metrics.\<close>

definition tab1_calculate :: "tab1_inputs \<Rightarrow> tab1_state" where
  "tab1_calculate i =
     (let s = calc_shares_from_investment (total_investment i) (current_price i)
      in \<lparr> shares = s,
           required_investment = of_int s * current_price i,
           metrics = calc_metrics (current_price i) (stop_loss i) (target_price i) s
                       (commission i) (slippage i) \<rparr>)"

text \<open>
  The portfolio-percent cap. The quotient \<open>cap_amount / current_price\<close> is taken with
  no guard on the price, so a price of \<open>0\<close> raises.
\<close>

definition tab1_position_cap :: "tab1_inputs \<Rightarrow> tab1_state \<Rightarrow> error + tab1_state" where
  "tab1_position_cap i st =
     (if max_position_pct i > 0 then
        (let cap_amount = (max_position_pct i / 100) * total_investment i in
         if current_price i = 0 then Inl ZeroDivisionError
         else
           (let allowed_shares = py_int (np_floor (cap_amount / current_price i)) in
            if shares st > allowed_shares then
              Inr \<lparr> shares = allowed_shares,
                    required_investment = of_int allowed_shares * current_price i,
                    metrics = calc_metrics (current_price i) (stop_loss i) (target_price i)
                                allowed_shares (commission i) (slippage i) \<rparr>
            else Inr st))
      else Inr st)"

subsection \<open>Tab 2: sizing from a risk limit\<close>

record tab2_inputs =
  entry_price2 :: real
  stop_loss2 :: real
  target2 :: real
  capital2 :: real
  computed_max_risk :: real

record tab2_state =
  shares_by_risk :: int
  raw_risk_per_share :: real
  required_investment2 :: real
  metrics2 :: trade_metrics

definition tab2_calculate :: "tab2_inputs \<Rightarrow> tab2_state" where
  "tab2_calculate i =
     (let (s, raw) = calc_shares_by_risk (computed_max_risk i) (entry_price2 i) (stop_loss2 i)
      in \<lparr> shares_by_risk = s,
           raw_risk_per_share = raw,
           required_investment2 = of_int s * entry_price2 i,
           metrics2 = calc_metrics (entry_price2 i) (stop_loss2 i) (target2 i) s 0 0 \<rparr>)"

text \<open>
  The button that fits the shares to the available capital. Here too the quotient is
  taken with no guard on the entry price.
\<close>

definition tab2_adjust :: "tab2_inputs \<Rightarrow> tab2_state \<Rightarrow> error + tab2_state" where
  "tab2_adjust i st =
     (if entry_price2 i = 0 then Inl ZeroDivisionError
      else
        (let affordable_shares = py_int (np_floor (capital2 i / entry_price2 i));
             s = min (shares_by_risk st) affordable_shares
         in Inr (st \<lparr> shares_by_risk := s,
                      metrics2 := calc_metrics (entry_price2 i) (stop_loss2 i) (target2 i) s 0 0,
                      required_investment2 := of_int s * entry_price2 i \<rparr>)))"

section \<open>Arithmetic of the conversions\<close>

lemma py_int_np_floor: "py_int (np_floor x) = \<lfloor>x\<rfloor>"
  by (simp add: py_int_def np_floor_def)

lemma py_int_floordiv: "py_int (py_floordiv a b) = \<lfloor>a / b\<rfloor>"
  by (simp add: py_int_def py_floordiv_def)




lemma tab1_cap_result:
  assumes "tab1_position_cap i st = Inr st'"
  shows "shares st' \<le> shares st \<and> tab1_position_cap i st' = Inr st'"
  using assms
  by (auto simp add: tab1_position_cap_def Let_def split: if_splits)

lemma tab2_adjust_result:
  assumes "tab2_adjust j u = Inr u'"
  shows "shares_by_risk u' \<le> shares_by_risk u \<and> tab2_adjust j u' = Inr u'"
  using assms
  by (auto simp add: tab2_adjust_def Let_def split: if_splits)

section \<open>Share count from a risk limit\<close>



section \<open>The reward:risk ratio\<close>




section \<open>Share count from capital\<close>




section \<open>Trade metrics\<close>

text \<open>
  C4. For commission and slippage that are not negative, \<open>calc_metrics\<close> adds both to the
  risk per share and subtracts both from the profit per share, and the totals are the
  adjusted figures times the shares. Entry 150, stop 140, target 180 and 500 shares give,
  without costs, a total risk of 5000, a total profit of 15000 and a ratio of 3; with a
  commission of 1 and a slippage of 0.5 the adjusted profit is 28.5, the adjusted risk
  11.5 and the ratio 2.478.
\<close>

theorem calc_metrics_contract:
  fixes entry stop target commission slippage :: real
  assumes "0 \<le> commission" and "0 \<le> slippage"
  shows "risk_per_share (calc_metrics entry stop target n commission slippage) = entry - stop
       \<and> profit_per_share (calc_metrics entry stop target n commission slippage) = target - entry
       \<and> adj_risk_per_share (calc_metrics entry stop target n commission slippage) =
           risk_per_share (calc_metrics entry stop target n commission slippage) + commission + slippage
       \<and> adj_profit_per_share (calc_metrics entry stop target n commission slippage) =
           profit_per_share (calc_metrics entry stop target n commission slippage) - commission - slippage
       \<and> total_risk (calc_metrics entry stop target n commission slippage) =
           adj_risk_per_share (calc_metrics entry stop target n commission slippage) * of_int n
       \<and> total_profit (calc_metrics entry stop target n commission slippage) =
           adj_profit_per_share (calc_metrics entry stop target n commission slippage) * of_int n
       \<and> total_risk (calc_metrics 150 140 180 500 0 0) = 5000
       \<and> total_profit (calc_metrics 150 140 180 500 0 0) = 15000
       \<and> reward_risk_ratio (calc_metrics 150 140 180 500 0 0) = Some 3
       \<and> adj_profit_per_share (calc_metrics 150 140 180 500 1 (1/2)) = 285 / 10
       \<and> adj_risk_per_share (calc_metrics 150 140 180 500 1 (1/2)) = 115 / 10
       \<and> reward_risk_ratio (calc_metrics 150 140 180 500 1 (1/2)) = Some (2478 / 1000)"
  by (simp add: calc_metrics_def Let_def py_round_def round_half_even_def)

theorem calc_metrics_contract_witness:
  "(0::real) \<le> 1 \<and> (0::real) \<le> 1/2
   \<and> adj_risk_per_share (calc_metrics 150 140 180 500 1 (1/2)) = 10 + 1 + 1/2
   \<and> adj_profit_per_share (calc_metrics 150 140 180 500 1 (1/2)) = 30 - 1 - 1/2
   \<and> total_risk (calc_metrics 150 140 180 500 1 (1/2)) = 5750
   \<and> total_profit (calc_metrics 150 140 180 500 1 (1/2)) = 14250"
  using calc_metrics_contract [of 1 "1/2" 150 140 180 500]
  by simp

section \<open>Share counts are whole numbers only in some variants\<close>




section \<open>The two clamps\<close>

text \<open>
  C6. Each clamp, the portfolio-percent cap of tab 1 and the fit to the available capital
  of tab 2, returns a share count that is not above the one it was given, and applying
  the same clamp to its own result changes nothing. Each clamp returns a result whenever
  the price it divides by is not zero.
\<close>

theorem clamps_decrease_idempotent:
  shows "(current_price i \<noteq> 0 \<or> max_position_pct i \<le> 0 \<longrightarrow> (\<exists>st'. tab1_position_cap i st = Inr st'))
       \<and> (\<forall>st'. tab1_position_cap i st = Inr st' \<longrightarrow>
             shares st' \<le> shares st \<and> tab1_position_cap i st' = Inr st')
       \<and> (entry_price2 j \<noteq> 0 \<longrightarrow> (\<exists>u'. tab2_adjust j u = Inr u'))
       \<and> (\<forall>u'. tab2_adjust j u = Inr u' \<longrightarrow>
             shares_by_risk u' \<le> shares_by_risk u \<and> tab2_adjust j u' = Inr u')"
proof (intro conjI allI impI)
  assume "current_price i \<noteq> 0 \<or> max_position_pct i \<le> 0"
  then show "\<exists>st'. tab1_position_cap i st = Inr st'"
    by (auto simp add: tab1_position_cap_def Let_def)
next
  assume "entry_price2 j \<noteq> 0"
  then show "\<exists>u'. tab2_adjust j u = Inr u'"
    by (simp add: tab2_adjust_def Let_def)
qed (simp_all add: tab1_cap_result tab2_adjust_result)

theorem clamps_decrease_idempotent_witness:
  "(let i = \<lparr> stock_name = ''PSX:ABC'', total_investment = 50000, current_price = 150,
              commission = 0, slippage = 0, stop_loss = 140, target_price = 180,
              max_position_pct = 10 \<rparr>;
        st' = \<lparr> shares = 33, required_investment = 4950,
                metrics = calc_metrics 150 140 180 33 0 0 \<rparr>;
        j = \<lparr> entry_price2 = 150, stop_loss2 = 140, target2 = 180, capital2 = 30000,
              computed_max_risk = 5000 \<rparr>;
        u' = \<lparr> shares_by_risk = 200, raw_risk_per_share = 10, required_investment2 = 30000,
                metrics2 = calc_metrics 150 140 180 200 0 0 \<rparr>
    in current_price i \<noteq> 0
       \<and> shares (tab1_calculate i) = 333
       \<and> tab1_position_cap i (tab1_calculate i) = Inr st'
       \<and> shares st' \<le> shares (tab1_calculate i)
       \<and> tab1_position_cap i st' = Inr st'
       \<and> entry_price2 j \<noteq> 0
       \<and> shares_by_risk (tab2_calculate j) = 500
       \<and> tab2_adjust j (tab2_calculate j) = Inr u'
       \<and> shares_by_risk u' \<le> shares_by_risk (tab2_calculate j)
       \<and> tab2_adjust j u' = Inr u')"
proof -
  let ?i = "\<lparr> stock_name = ''PSX:ABC'', total_investment = 50000, current_price = 150,
              commission = 0, slippage = 0, stop_loss = 140, target_price = 180,
              max_position_pct = 10 \<rparr>"
  let ?st' = "\<lparr> shares = 33, required_investment = 4950,
                metrics = calc_metrics 150 140 180 33 0 0 \<rparr>"
  let ?j = "\<lparr> entry_price2 = 150, stop_loss2 = 140, target2 = 180, capital2 = 30000,
              computed_max_risk = 5000 \<rparr>"
  let ?u' = "\<lparr> shares_by_risk = 200, raw_risk_per_share = 10, required_investment2 = 30000,
                metrics2 = calc_metrics 150 140 180 200 0 0 \<rparr>"
  have s1: "shares (tab1_calculate ?i) = 333"
    by (simp add: tab1_calculate_def calc_shares_from_investment_def py_int_floordiv)
  have c1: "tab1_position_cap ?i (tab1_calculate ?i) = Inr ?st'"
    by (simp add: tab1_position_cap_def tab1_calculate_def calc_shares_from_investment_def
        py_int_floordiv py_int_np_floor)
  have s2: "shares_by_risk (tab2_calculate ?j) = 500"
    by (simp add: tab2_calculate_def calc_shares_by_risk_def py_int_np_floor)
  have c2: "tab2_adjust ?j (tab2_calculate ?j) = Inr ?u'"
    by (simp add: tab2_adjust_def tab2_calculate_def calc_shares_by_risk_def py_int_np_floor)
  from clamps_decrease_idempotent [of ?i "tab1_calculate ?i" ?j "tab2_calculate ?j"] c1 c2
  have "shares ?st' \<le> shares (tab1_calculate ?i) \<and> tab1_position_cap ?i ?st' = Inr ?st'
        \<and> shares_by_risk ?u' \<le> shares_by_risk (tab2_calculate ?j) \<and> tab2_adjust ?j ?u' = Inr ?u'"
    by blast
  with s1 c1 s2 c2 show ?thesis
    by (simp add: Let_def)
qed

section \<open>Monotonicity of the share counts\<close>

text \<open>
  C7. With a positive risk per share, a larger maximum risk never gives fewer shares from
  \<open>calc_shares_by_risk\<close>; with a positive price, a larger investment never gives fewer
  shares from \<open>calc_shares_from_investment\<close>.
\<close>

theorem shares_monotone:
  fixes max_risk max_risk' entry_price stop_loss total_investment total_investment' current_price :: real
  shows "(0 < entry_price - stop_loss \<and> max_risk \<le> max_risk' \<longrightarrow>
            fst (calc_shares_by_risk max_risk entry_price stop_loss)
              \<le> fst (calc_shares_by_risk max_risk' entry_price stop_loss))
       \<and> (0 < current_price \<and> total_investment \<le> total_investment' \<longrightarrow>
            calc_shares_from_investment total_investment current_price
              \<le> calc_shares_from_investment total_investment' current_price)"
  by (auto simp add: calc_shares_by_risk_def calc_shares_from_investment_def Let_def
      py_int_np_floor py_int_floordiv intro!: floor_mono divide_right_mono)

theorem shares_monotone_witness:
  "(0::real) < 150 - 140 \<and> (5000::real) \<le> 5015
   \<and> fst (calc_shares_by_risk 5000 150 140) = 500
   \<and> fst (calc_shares_by_risk 5015 150 140) = 501
   \<and> (0::real) < 150 \<and> (50000::real) \<le> 50100
   \<and> calc_shares_from_investment 50000 150 = 333
   \<and> calc_shares_from_investment 50100 150 = 334
   \<and> fst (calc_shares_by_risk 5000 150 140) \<le> fst (calc_shares_by_risk 5015 150 140)
   \<and> calc_shares_from_investment 50000 150 \<le> calc_shares_from_investment 50100 150"
  using shares_monotone [of 150 140 5000 5015 150 50000 50100]
  by (simp add: calc_shares_by_risk_def calc_shares_from_investment_def py_int_np_floor
      py_int_floordiv)

section \<open>Missing inputs at the safe entry points\<close>

text \<open>
  C9, as the code has it. A negative investment is not reported as \<open>None\<close> by
  \<open>safe_shares_from_investment\<close>: with a positive entry price it gives a share count.
\<close>

theorem safe_inputs_counterexample:
  "safe_shares_from_investment (Some (- 100)) (Some 10) = Some (- 10)"
  by (simp add: safe_shares_from_investment_def truthy_def py_int_np_floor)

text \<open>
  C9, amended. \<open>safe_shares_by_risk\<close> returns \<open>(None, None)\<close> whenever the maximum
  risk, the entry price or the stop loss is \<open>None\<close> or \<open>0\<close>, and only then is its share
  count \<open>None\<close>. \<open>safe_shares_from_investment\<close> returns \<open>None\<close> whenever the
  investment is \<open>None\<close> or \<open>0\<close>, or the entry price is \<open>None\<close>, \<open>0\<close> or negative. An
  invalid stop with all inputs present gives the numbers \<open>(0, risk_per_share)\<close>, which
  differ from \<open>(None, None)\<close>.
\<close>

theorem safe_missing_inputs:
  fixes max_risk entry_price stop_loss total_investment :: "real option"
    and m e s :: real
  shows "(max_risk \<in> {None, Some 0} \<or> entry_price \<in> {None, Some 0} \<or> stop_loss \<in> {None, Some 0}
            \<longrightarrow> safe_shares_by_risk max_risk entry_price stop_loss = (None, None))
       \<and> (total_investment \<in> {None, Some 0} \<or> entry_price = None
            \<or> (\<exists>p. entry_price = Some p \<and> p \<le> 0)
            \<longrightarrow> safe_shares_from_investment total_investment entry_price = None)
       \<and> (m \<noteq> 0 \<and> e \<noteq> 0 \<and> s \<noteq> 0 \<and> e - s \<le> 0
            \<longrightarrow> safe_shares_by_risk (Some m) (Some e) (Some s) = (Some 0, Some (e - s)))
       \<and> (fst (safe_shares_by_risk max_risk entry_price stop_loss) = None
            \<longleftrightarrow> max_risk \<in> {None, Some 0} \<or> entry_price \<in> {None, Some 0}
                \<or> stop_loss \<in> {None, Some 0})"
  by (auto simp add: safe_shares_by_risk_def safe_shares_from_investment_def truthy_def Let_def
      split: option.splits)

theorem safe_missing_inputs_witness:
  "safe_shares_by_risk (Some 0) (Some 150) (Some 140) = (None, None)
   \<and> safe_shares_by_risk (Some 5000) None (Some 140) = (None, None)
   \<and> safe_shares_from_investment (Some 0) (Some 150) = None
   \<and> safe_shares_from_investment (Some 50000) (Some (- 5)) = None
   \<and> safe_shares_by_risk (Some 5000) (Some 150) (Some 160) = (Some 0, Some (150 - 160))
   \<and> fst (safe_shares_by_risk (Some 5000) (Some 150) (Some 160)) \<noteq> None"
  using safe_missing_inputs [of "Some 0" "Some 150" "Some 140" "Some 0" 5000 150 160]
        safe_missing_inputs [of "Some 5000" None "Some 140" "Some 50000" 5000 150 160]
        safe_missing_inputs [of "Some 5000" "Some (- 5)" "Some 160" "Some 50000" 5000 150 160]
        safe_missing_inputs [of "Some 5000" "Some 150" "Some 160" "Some 50000" 5000 150 160]
  by simp

section \<open>What the portfolio-percent cap leaves unchanged\<close>

text \<open>
  C10. When the cap of tab 1 has run on the freshly computed state, the risk and profit
  per share, their adjusted values and the reward:risk ratio are those from before the
  cap; the metrics are \<open>calc_metrics\<close> of the same prices and costs at the new share
  count, and the required investment is the new share count times the price.
\<close>

theorem cap_keeps_per_share_fields:
  assumes "tab1_position_cap i (tab1_calculate i) = Inr st'"
  shows "risk_per_share (metrics st') = risk_per_share (metrics (tab1_calculate i))
       \<and> adj_risk_per_share (metrics st') = adj_risk_per_share (metrics (tab1_calculate i))
       \<and> profit_per_share (metrics st') = profit_per_share (metrics (tab1_calculate i))
       \<and> adj_profit_per_share (metrics st') = adj_profit_per_share (metrics (tab1_calculate i))
       \<and> reward_risk_ratio (metrics st') = reward_risk_ratio (metrics (tab1_calculate i))
       \<and> metrics st' = calc_metrics (current_price i) (stop_loss i) (target_price i) (shares st')
                          (commission i) (slippage i)
       \<and> required_investment st' = of_int (shares st') * current_price i"
  using assms
  by (auto simp add: tab1_position_cap_def tab1_calculate_def calc_metrics_def Let_def
      split: if_splits)

theorem cap_keeps_per_share_fields_witness:
  "(let i = \<lparr> stock_name = ''PSX:ABC'', total_investment = 50000, current_price = 150,
              commission = 1, slippage = 1 / 2, stop_loss = 140, target_price = 180,
              max_position_pct = 10 \<rparr>;
        st' = \<lparr> shares = 33, required_investment = 4950,
                metrics = calc_metrics 150 140 180 33 1 (1 / 2) \<rparr>
    in tab1_position_cap i (tab1_calculate i) = Inr st'
       \<and> shares st' < shares (tab1_calculate i)
       \<and> total_risk (metrics st') \<noteq> total_risk (metrics (tab1_calculate i))
       \<and> adj_risk_per_share (metrics st') = adj_risk_per_share (metrics (tab1_calculate i))
       \<and> adj_profit_per_share (metrics st') = adj_profit_per_share (metrics (tab1_calculate i))
       \<and> reward_risk_ratio (metrics st') = reward_risk_ratio (metrics (tab1_calculate i)))"
proof -
  let ?i = "\<lparr> stock_name = ''PSX:ABC'', total_investment = 50000, current_price = 150,
              commission = 1, slippage = 1 / 2, stop_loss = 140, target_price = 180,
              max_position_pct = 10 \<rparr>"
  let ?st' = "\<lparr> shares = 33, required_investment = 4950,
                metrics = calc_metrics 150 140 180 33 1 (1 / 2) \<rparr>"
  have c: "tab1_position_cap ?i (tab1_calculate ?i) = Inr ?st'"
    by (simp add: tab1_position_cap_def tab1_calculate_def calc_shares_from_investment_def
        py_int_floordiv py_int_np_floor)
  have s: "shares (tab1_calculate ?i) = 333"
    by (simp add: tab1_calculate_def calc_shares_from_investment_def py_int_floordiv)
  have t: "total_risk (metrics ?st') \<noteq> total_risk (metrics (tab1_calculate ?i))"
    by (simp add: tab1_calculate_def calc_shares_from_investment_def py_int_floordiv
        calc_metrics_def Let_def)
  from cap_keeps_per_share_fields [OF c] c s t show ?thesis
    by (simp add: Let_def)
qed

end
